theory Spec2Isabelle
  imports Main "HOL-Library.Word"
begin

section \<open>The AST2400 SoC model (hw/arm/ast2400.c)\<close>

text \<open>
  The file composes the peripherals of the AST2400 onto the system address space and the
  interrupt controller. Everything it does is a call into another part of the emulator
  (the memory API, the object property setters, the system bus, the I2C bus). The
  embedding keeps the sequence of those calls, in the order the C text makes them, with
  their arguments, and the value of the local \<^verbatim>\<open>Error *err\<close> after each one.
\<close>

subsection \<open>Constants of the file\<close>

type_synonym hwaddr = "64 word"

definition AST2400_UART_5_BASE :: hwaddr where
  "AST2400_UART_5_BASE = 0x00184000"

definition AST2400_IOMEM_SIZE :: hwaddr where
  "AST2400_IOMEM_SIZE = 0x00200000"

definition AST2400_IOMEM_BASE :: hwaddr where
  "AST2400_IOMEM_BASE = 0x1E600000"

definition CDNS_GEM_ADDR :: hwaddr where
  "CDNS_GEM_ADDR = 0x1E680000"

definition AST2400_VIC_BASE :: hwaddr where
  "AST2400_VIC_BASE = 0x1E6C0000"

definition AST2400_SCU_BASE :: hwaddr where
  "AST2400_SCU_BASE = 0x1E6E2000"

definition AST2400_TIMER_BASE :: hwaddr where
  "AST2400_TIMER_BASE = 0x1E782000"

definition AST2400_I2C_BASE :: hwaddr where
  "AST2400_I2C_BASE = 0x1E78A000"

definition uart_irqs :: "int list" where
  "uart_irqs = [9, 32, 33, 34, 10]"

definition timer_irqs :: "int list" where
  "timer_irqs = [16, 17, 18, 35, 36, 37, 38, 39]"

definition CDNS_GEM_IRQ :: int where
  "CDNS_GEM_IRQ = 3"

subsection \<open>The catch-all IO handlers\<close>

text \<open>
  \<^verbatim>\<open>ast2400_io_read\<close> and \<^verbatim>\<open>ast2400_io_write\<close> hand one line to
  \<^verbatim>\<open>qemu_log_mask(LOG_UNIMP, ...)\<close> and touch nothing else. The line is kept as
  the arguments of the format string: the function name, the offset, the value (for a
  write) and the size. Whether the logger prints a line of mask \<^verbatim>\<open>LOG_UNIMP\<close> is
  the logger's business; the model records the request together with its mask.
  The handlers receive an opaque pointer; the state it points to is the field
  \<open>opaque\<close>.
\<close>

datatype log_mask = LOG_UNIMP

datatype log_line =
    ReadLine string hwaddr "32 word"
  | WriteLine string hwaddr "64 word" "32 word"

record 'p io_state =
  opaque :: 'p
  qemu_log :: "(log_mask \<times> log_line) list"

definition qemu_log_mask :: "log_mask \<Rightarrow> log_line \<Rightarrow> 'p io_state \<Rightarrow> 'p io_state" where
  "qemu_log_mask msk ln st = st\<lparr>qemu_log := qemu_log st @ [(msk, ln)]\<rparr>"

definition ast2400_io_read :: "'p io_state \<Rightarrow> hwaddr \<Rightarrow> 32 word \<Rightarrow> 64 word \<times> 'p io_state" where
  "ast2400_io_read st offset sz =
     (let st = qemu_log_mask LOG_UNIMP (ReadLine ''ast2400_io_read'' offset sz) st
      in (0, st))"

definition ast2400_io_write :: "'p io_state \<Rightarrow> hwaddr \<Rightarrow> 64 word \<Rightarrow> 32 word \<Rightarrow> 'p io_state" where
  "ast2400_io_write st offset v sz =
     qemu_log_mask LOG_UNIMP (WriteLine ''ast2400_io_write'' offset v sz) st"

subsection \<open>Objects, interrupt lines and calls\<close>

text \<open>
  The objects \<^verbatim>\<open>ast2400_realize\<close> talks to: the CPU, the five peripherals held in
  \<^verbatim>\<open>AST2400State\<close>, and the device an \<^verbatim>\<open>i2c_create_slave\<close> call returns
  (named by the number of the sub-bus, the type name and the bus address it was created
  with).
\<close>

datatype device = CPU | VIC | GEM | TIMERCTRL | SCU | I2C | I2C_SLAVE int string "8 word"

text \<open>
  An input line of a device, as \<^verbatim>\<open>qdev_get_gpio_in(dev, n)\<close> names it. The two CPU
  inputs are the macros \<^verbatim>\<open>ARM_CPU_IRQ\<close> and \<^verbatim>\<open>ARM_CPU_FIQ\<close> of cpu.h; they are
  kept as names.
\<close>

datatype gpio = Line int | ARM_CPU_IRQ | ARM_CPU_FIQ

datatype qemu_irq = qdev_get_gpio_in device gpio

datatype mem_region = SYSTEM_MEMORY | SRAM | IOMEM

datatype device_endian = DEVICE_NATIVE_ENDIAN | DEVICE_BIG_ENDIAN | DEVICE_LITTLE_ENDIAN

datatype type_name = TYPE_CADENCE_GEM

text \<open>
  The table \<^verbatim>\<open>ast2400_io_ops\<close>: its \<^verbatim>\<open>.read\<close> is \<^verbatim>\<open>ast2400_io_read\<close>, its
  \<^verbatim>\<open>.write\<close> is \<^verbatim>\<open>ast2400_io_write\<close>, its endianness is little-endian. A call
  names the table it is given.
\<close>

datatype memory_region_ops = ast2400_io_ops

type_synonym chardev = string

text \<open>
  \<^verbatim>\<open>nd_table[0]\<close>: the description of the first network card. \<open>nd_netdev\<close> is the
  backend it is attached to, \<open>None\<close> when no backend was supplied.
\<close>

record NICInfo =
  nd_model :: "string option"
  nd_netdev :: "string option"

text \<open>
  The calls of \<^verbatim>\<open>ast2400_realize\<close>, each constructor named after the C function and
  taking its arguments in the C order, without the pointers that are always null and
  without \<^verbatim>\<open>&err\<close>. The bus of \<^verbatim>\<open>i2c_create_slave\<close> is
  \<^verbatim>\<open>aspeed_i2c_get_bus(DEVICE(&s->i2c), n)\<close>, kept as the number \<open>n\<close>; the container
  \<^verbatim>\<open>get_system_memory()\<close> is \<open>SYSTEM_MEMORY\<close>.
\<close>

datatype call =
    memory_region_allocate_system_memory mem_region string hwaddr
  | memory_region_add_subregion mem_region hwaddr mem_region
  | memory_region_init_io mem_region memory_region_ops string hwaddr
  | memory_region_add_subregion_overlap mem_region hwaddr mem_region int
  | object_property_set_int device "64 word" string
  | object_property_set_bool device bool string
  | sysbus_mmio_map device int hwaddr
  | sysbus_connect_irq device int qemu_irq
  | qemu_check_nic_model NICInfo type_name
  | qdev_set_nic_properties device NICInfo
  | serial_mm_init mem_region hwaddr int qemu_irq int chardev device_endian
  | i2c_create_slave int string "8 word"

subsection \<open>The error channel\<close>

datatype error = Error string

text \<open>
  Only the property setters receive \<^verbatim>\<open>&err\<close>. What a setter leaves in
  \<^verbatim>\<open>err\<close> is decided outside this file, so it is a parameter: \<open>K c e\<close> is the
  value of \<^verbatim>\<open>err\<close> after the call \<open>c\<close> that was made with \<^verbatim>\<open>err\<close> holding
  \<open>e\<close>. A call that ends the process (an allocation that cannot be served, a network
  card model \<^verbatim>\<open>qemu_check_nic_model\<close> rejects) has no run to speak of and is not
  part of the model.
\<close>

type_synonym setters = "call \<Rightarrow> error option \<Rightarrow> error option"

text \<open>
  The state of a run: the caller's \<^verbatim>\<open>*errp\<close> (clear on entry), the local
  \<^verbatim>\<open>err\<close>, and the calls made so far, each with the value of \<^verbatim>\<open>err\<close> when it
  returned.
\<close>

record run =
  errp :: "error option"
  err :: "error option"
  calls :: "(call \<times> error option) list"

definition start :: run where
  "start = \<lparr>errp = None, err = None, calls = []\<rparr>"

text \<open>
  A call that is not given \<^verbatim>\<open>&err\<close> leaves \<^verbatim>\<open>err\<close> as it is; a call that is
  given \<^verbatim>\<open>&err\<close> leaves in it what the setters decide. \<^verbatim>\<open>error_propagate(errp, err)\<close>
  hands the local error to the caller.
\<close>

definition infallible :: "call \<Rightarrow> run \<Rightarrow> run" where
  "infallible c s = s\<lparr>calls := calls s @ [(c, err s)]\<rparr>"

definition fallible :: "setters \<Rightarrow> call \<Rightarrow> run \<Rightarrow> run" where
  "fallible K c s = (let e = K c (err s) in s\<lparr>err := e, calls := calls s @ [(c, e)]\<rparr>)"

definition error_propagate :: "run \<Rightarrow> run" where
  "error_propagate s = s\<lparr>errp := err s\<rparr>"

subsection \<open>The inputs of a run\<close>

text \<open>
  \<^verbatim>\<open>serial_hds[0]\<close> and \<^verbatim>\<open>nd_table[0]\<close> are globals the function reads;
  \<^verbatim>\<open>AST2400_SRAM_BASE\<close> and \<^verbatim>\<open>AST2400_SRAM_SIZE\<close> are macros of
  hw/arm/ast2400.h, which is not part of this file, and are taken as inputs.
\<close>

record machine =
  serial_hds0 :: "chardev option"
  nd_table0 :: NICInfo
  AST2400_SRAM_BASE :: hwaddr
  AST2400_SRAM_SIZE :: hwaddr

subsection \<open>ast2400_realize\<close>

text \<open>The loop over \<^verbatim>\<open>timer_irqs\<close>; \<^verbatim>\<open>ARRAY_SIZE(timer_irqs)\<close> is the table's length.\<close>

function timer_irq_loop :: "nat \<Rightarrow> run \<Rightarrow> run" where
  "timer_irq_loop i s =
     (if i < length timer_irqs
      then (let irq = qdev_get_gpio_in VIC (Line (timer_irqs ! i));
                s = infallible (sysbus_connect_irq TIMERCTRL (int i) irq) s
            in timer_irq_loop (i + 1) s)
      else s)"
  by pat_completeness auto
termination
  by (relation "measure (\<lambda>(i, s). length timer_irqs - i)") auto

declare timer_irq_loop.simps [simp del]

definition ast2400_realize :: "setters \<Rightarrow> machine \<Rightarrow> run" where
  "ast2400_realize K m =
   (let s = start;
        \<comment> \<open>SRAM\<close>
        s = infallible (memory_region_allocate_system_memory SRAM ''ast2400.sram'' (AST2400_SRAM_SIZE m)) s;
        s = infallible (memory_region_add_subregion SYSTEM_MEMORY (AST2400_SRAM_BASE m) SRAM) s;
        \<comment> \<open>IO space\<close>
        s = infallible (memory_region_init_io IOMEM ast2400_io_ops ''ast2400.io'' AST2400_IOMEM_SIZE) s;
        s = infallible (memory_region_add_subregion_overlap SYSTEM_MEMORY AST2400_IOMEM_BASE IOMEM (- 1)) s;
        \<comment> \<open>VIC\<close>
        s = fallible K (object_property_set_int VIC 0x00001F07FFF8FFFF ''sense'') s;
        s = fallible K (object_property_set_int VIC 0x000000F800070000 ''dual_edge'') s;
        s = fallible K (object_property_set_int VIC 0x00005F07FFF8FFFF ''event'') s
    in if err s \<noteq> None then error_propagate s else
   (let s = fallible K (object_property_set_bool VIC True ''realized'') s
    in if err s \<noteq> None then error_propagate s else
   (let s = infallible (sysbus_mmio_map VIC 0 AST2400_VIC_BASE) s;
        s = infallible (sysbus_connect_irq VIC 0 (qdev_get_gpio_in CPU ARM_CPU_IRQ)) s;
        s = infallible (sysbus_connect_irq VIC 1 (qdev_get_gpio_in CPU ARM_CPU_FIQ)) s;
        \<comment> \<open>Timer\<close>
        s = fallible K (object_property_set_bool TIMERCTRL True ''realized'') s
    in if err s \<noteq> None then error_propagate s else
   (let s = infallible (sysbus_mmio_map TIMERCTRL 0 AST2400_TIMER_BASE) s;
        s = timer_irq_loop 0 s;
        \<comment> \<open>Cadence GEM\<close>
        s = infallible (qemu_check_nic_model (nd_table0 m) TYPE_CADENCE_GEM) s;
        s = infallible (qdev_set_nic_properties GEM (nd_table0 m)) s;
        s = fallible K (object_property_set_bool GEM True ''realized'') s
    in if err s \<noteq> None then error_propagate s else
   (let s = infallible (sysbus_mmio_map GEM 0 CDNS_GEM_ADDR) s;
        s = infallible (sysbus_connect_irq GEM 0 (qdev_get_gpio_in VIC (Line CDNS_GEM_IRQ))) s;
        \<comment> \<open>SCU\<close>
        s = fallible K (object_property_set_int SCU 0x19FC3E8B ''scu0c'') s;
        s = fallible K (object_property_set_int SCU 0x01000000 ''scu88'') s;
        s = fallible K (object_property_set_int SCU 0x000000FF ''scu8c'') s;
        s = fallible K (object_property_set_int SCU 0x003FFFF3 ''scu9c'') s;
        s = fallible K (object_property_set_bool SCU True ''realized'') s
    in if err s \<noteq> None then error_propagate s else
   (let s = infallible (sysbus_mmio_map SCU 0 AST2400_SCU_BASE) s;
        \<comment> \<open>UART: an 8250 in the IO space, as UART5\<close>
        s = (case serial_hds0 m of
               Some chr \<Rightarrow>
                 (let uart5 = qdev_get_gpio_in VIC (Line (uart_irqs ! 4))
                  in infallible (serial_mm_init IOMEM AST2400_UART_5_BASE 2 uart5 38400 chr
                              DEVICE_LITTLE_ENDIAN) s)
             | None \<Rightarrow> s);
        \<comment> \<open>I2C\<close>
        s = fallible K (object_property_set_bool I2C True ''realized'') s
    in if err s \<noteq> None then error_propagate s else
   (let s = infallible (sysbus_mmio_map I2C 0 AST2400_I2C_BASE) s;
        s = infallible (sysbus_connect_irq I2C 0 (qdev_get_gpio_in VIC (Line 12))) s;
        \<comment> \<open>the TMP423 temperature sensor\<close>
        s = infallible (i2c_create_slave 2 ''tmp423'' 0x4c) s;
        dev = I2C_SLAVE 2 ''tmp423'' 0x4c;
        s = fallible K (object_property_set_int dev 31000 ''temperature0'') s;
        s = fallible K (object_property_set_int dev 28000 ''temperature1'') s;
        s = fallible K (object_property_set_int dev 20000 ''temperature2'') s;
        s = fallible K (object_property_set_int dev 110000 ''temperature3'') s;
        \<comment> \<open>the DS1338 clock\<close>
        s = infallible (i2c_create_slave 0 ''ds1338'' 0x68) s
    in s)))))))"

subsection \<open>Reading a run\<close>

text \<open>The calls of a run, in order, without the recorded values of \<^verbatim>\<open>err\<close>.\<close>

definition done_calls :: "run \<Rightarrow> call list" where
  "done_calls s = map fst (calls s)"

text \<open>The object a call acts on, for the calls that configure, activate, map or wire one.\<close>

fun subject :: "call \<Rightarrow> device option" where
  "subject (object_property_set_int d v n) = Some d"
| "subject (object_property_set_bool d b n) = Some d"
| "subject (sysbus_mmio_map d n a) = Some d"
| "subject (sysbus_connect_irq d n q) = Some d"
| "subject (qdev_set_nic_properties d nd) = Some d"
| "subject c = None"

definition calls_on :: "device \<Rightarrow> call list \<Rightarrow> call list" where
  "calls_on d cs = filter (\<lambda>c. subject c = Some d) cs"

text \<open>The interrupt wiring of a device: its connected outputs with their targets.\<close>

fun irq_wiring :: "device \<Rightarrow> call list \<Rightarrow> (int \<times> qemu_irq) list" where
  "irq_wiring d [] = []"
| "irq_wiring d (sysbus_connect_irq d' n q # cs) =
     (if d' = d then (n, q) # irq_wiring d cs else irq_wiring d cs)"
| "irq_wiring d (c # cs) = irq_wiring d cs"

text \<open>The devices whose \<^verbatim>\<open>realized\<close> property was set to true, in the order of the calls.\<close>

fun activated :: "call list \<Rightarrow> device list" where
  "activated [] = []"
| "activated (object_property_set_bool d b n # cs) =
     (if b \<and> n = ''realized'' then d # activated cs else activated cs)"
| "activated (c # cs) = activated cs"

text \<open>The UARTs created in the IO space.\<close>

fun is_serial_mm_init :: "call \<Rightarrow> bool" where
  "is_serial_mm_init (serial_mm_init mr base it_shift irq baudbase chr en) = True"
| "is_serial_mm_init c = False"

definition uarts :: "call list \<Rightarrow> call list" where
  "uarts cs = filter is_serial_mm_init cs"

text \<open>
  The calls after which \<^verbatim>\<open>ast2400_realize\<close> tests \<^verbatim>\<open>err\<close>: the last of the three
  VIC masks and the five activations.
\<close>

definition checkpoints :: "call list" where
  "checkpoints =
     [object_property_set_int VIC 0x00005F07FFF8FFFF ''event'',
      object_property_set_bool VIC True ''realized'',
      object_property_set_bool TIMERCTRL True ''realized'',
      object_property_set_bool GEM True ''realized'',
      object_property_set_bool SCU True ''realized'',
      object_property_set_bool I2C True ''realized'']"

text \<open>The interrupt line a \<^verbatim>\<open>serial_mm_init\<close> call hands to the UART.\<close>

fun serial_irq :: "call \<Rightarrow> qemu_irq option" where
  "serial_irq (serial_mm_init mr base it_shift irq baudbase chr en) = Some irq"
| "serial_irq c = None"

text \<open>
  \<^verbatim>\<open>serial_mm_init(address_space, base, it_shift, irq, baudbase, chr, end)\<close> is
  declared in hw/char/serial.h and defined in hw/char/serial.c, neither of them part of
  this file. Its third parameter is the register shift: the memory-mapped 8250 finds
  register \<open>n\<close> at byte offset \<open>n << it_shift\<close>, so neighbouring registers are
  \<open>1 << it_shift\<close> bytes apart.
\<close>

fun reg_stride_bytes :: "call \<Rightarrow> nat" where
  "reg_stride_bytes (serial_mm_init mr base it_shift irq baudbase chr en) = 2 ^ nat it_shift"
| "reg_stride_bytes c = 0"

text \<open>The first error recorded in a run, and setters that leave an error already set alone.\<close>

fun first_error :: "(call \<times> error option) list \<Rightarrow> error option" where
  "first_error [] = None"
| "first_error ((c, None) # xs) = first_error xs"
| "first_error ((c, Some e) # xs) = Some e"

definition keeps_error :: "setters \<Rightarrow> bool" where
  "keeps_error K = (\<forall>c x. K c (Some x) = Some x)"

definition err_is_first :: "run \<Rightarrow> bool" where
  "err_is_first s = (first_error (calls s) = err s)"

subsection \<open>The address space\<close>

text \<open>
  Modelled from the spec: the address space, which is the emulator's memory API
  (memory.c, sysbus.c) and not part of this file. The spec describes it as "a global,
  ordered collection of mapped memory regions keyed by base address and size; supports
  overlapping regions with a priority/layering rule", with "concrete peripheral regions
  take priority over the overlapping catch-all region at the same address".
  A mapping is read off the calls: \<^verbatim>\<open>memory_region_add_subregion\<close> and
  \<^verbatim>\<open>sysbus_mmio_map\<close> map at priority 0 (the latter into the system memory),
  \<^verbatim>\<open>memory_region_add_subregion_overlap\<close> at the priority it is given, and
  \<^verbatim>\<open>serial_mm_init\<close> maps the UART's eight registers into the region it is handed.
  The size of a device's register window is fixed by the device model; it is the
  parameter \<open>mmio_size\<close>.
\<close>

datatype target = Region mem_region | Mmio device int | Serial

record mapping =
  m_base :: hwaddr
  m_size :: hwaddr
  m_priority :: int
  m_target :: target

fun region_size :: "call list \<Rightarrow> mem_region \<Rightarrow> hwaddr" where
  "region_size [] r = 0"
| "region_size (memory_region_allocate_system_memory r' name sz # cs) r =
     (if r' = r then sz else region_size cs r)"
| "region_size (memory_region_init_io r' ops name sz # cs) r =
     (if r' = r then sz else region_size cs r)"
| "region_size (c # cs) r = region_size cs r"

fun mapped_by :: "(device \<Rightarrow> hwaddr) \<Rightarrow> call list \<Rightarrow> mem_region \<Rightarrow> call \<Rightarrow> mapping list" where
  "mapped_by mmio_size cs container (memory_region_add_subregion mr base sub) =
     (if mr = container
      then [\<lparr>m_base = base, m_size = region_size cs sub, m_priority = 0, m_target = Region sub\<rparr>]
      else [])"
| "mapped_by mmio_size cs container (memory_region_add_subregion_overlap mr base sub prio) =
     (if mr = container
      then [\<lparr>m_base = base, m_size = region_size cs sub, m_priority = prio, m_target = Region sub\<rparr>]
      else [])"
| "mapped_by mmio_size cs container (sysbus_mmio_map d n base) =
     (if container = SYSTEM_MEMORY
      then [\<lparr>m_base = base, m_size = mmio_size d, m_priority = 0, m_target = Mmio d n\<rparr>]
      else [])"
| "mapped_by mmio_size cs container (serial_mm_init mr base it_shift irq baudbase chr en) =
     (if mr = container
      then [\<lparr>m_base = base, m_size = push_bit (nat it_shift) 8, m_priority = 0, m_target = Serial\<rparr>]
      else [])"
| "mapped_by mmio_size cs container c = []"

definition subregions :: "(device \<Rightarrow> hwaddr) \<Rightarrow> call list \<Rightarrow> mem_region \<Rightarrow> mapping list" where
  "subregions mmio_size cs container = concat (map (mapped_by mmio_size cs container) cs)"

definition covers :: "mapping \<Rightarrow> hwaddr \<Rightarrow> bool" where
  "covers x a = (m_base x \<le> a \<and> a - m_base x < m_size x)"

text \<open>
  Modelled from the spec: the layering rule. An access at address \<open>a\<close> is served by the
  mappings that cover \<open>a\<close> and whose priority no other covering mapping exceeds.
\<close>

definition resolve :: "mapping list \<Rightarrow> hwaddr \<Rightarrow> target list" where
  "resolve ms a =
     (let hit = filter (\<lambda>x. covers x a) ms
      in map m_target (filter (\<lambda>x. list_all (\<lambda>y. m_priority y \<le> m_priority x) hit) hit))"

text \<open>
  The five peripherals that \<^verbatim>\<open>ast2400_realize\<close> maps with \<^verbatim>\<open>sysbus_mmio_map\<close>,
  each with its base address, and the mapping of the catch-all region as the function
  makes it.
\<close>

definition peripheral_bases :: "(device \<times> hwaddr) list" where
  "peripheral_bases =
     [(VIC, AST2400_VIC_BASE), (TIMERCTRL, AST2400_TIMER_BASE), (GEM, CDNS_GEM_ADDR),
      (SCU, AST2400_SCU_BASE), (I2C, AST2400_I2C_BASE)]"

definition catch_all :: mapping where
  "catch_all = \<lparr>m_base = AST2400_IOMEM_BASE, m_size = AST2400_IOMEM_SIZE, m_priority = - 1,
                 m_target = Region IOMEM\<rparr>"

subsection \<open>Runs used to evaluate the model\<close>

text \<open>
  A Palmetto-like machine with a serial backend and no network backend, the same machine
  without the serial backend, register windows of one page each, and setters that never
  fail or fail at one call only (leaving an error that is already set alone).
\<close>

definition board :: machine where
  "board = \<lparr>serial_hds0 = Some ''serial0'',
            nd_table0 = \<lparr>nd_model = None, nd_netdev = None\<rparr>,
            AST2400_SRAM_BASE = 0x1E720000, AST2400_SRAM_SIZE = 0x8000\<rparr>"

definition headless :: machine where
  "headless = board\<lparr>serial_hds0 := None\<rparr>"

definition page_windows :: "device \<Rightarrow> hwaddr" where
  "page_windows d = 0x1000"

definition quiet :: setters where
  "quiet c e = e"

definition failing_at :: "call \<Rightarrow> error \<Rightarrow> setters" where
  "failing_at bad x c e =
     (case e of Some y \<Rightarrow> Some y | None \<Rightarrow> if c = bad then Some x else None)"

section \<open>Facts about the state operations\<close>

lemma start_simps:
  "errp start = None" "err start = None" "calls start = []"
  by (simp_all add: start_def)

lemma infallible_sel [simp]:
  "errp (infallible c s) = errp s" "err (infallible c s) = err s"
  "calls (infallible c s) = calls s @ [(c, err s)]"
  by (simp_all add: infallible_def)

lemma fallible_sel [simp]:
  "errp (fallible K c s) = errp s" "err (fallible K c s) = K c (err s)"
  "calls (fallible K c s) = calls s @ [(c, K c (err s))]"
  by (simp_all add: fallible_def Let_def)

lemma error_propagate_sel [simp]:
  "errp (error_propagate s) = err s" "err (error_propagate s) = err s"
  "calls (error_propagate s) = calls s"
  by (simp_all add: error_propagate_def)

lemma timer_irq_loop_err [simp]:
  "errp (timer_irq_loop i s) = errp s" "err (timer_irq_loop i s) = err s"
  by (induction i s rule: timer_irq_loop.induct; subst timer_irq_loop.simps; simp add: Let_def)+

text \<open>The loop connects output \<open>j\<close> to VIC input \<open>timer_irqs ! j\<close>, for every index from \<open>i\<close> on.\<close>

lemma timer_irq_loop_calls:
  "calls (timer_irq_loop i s) = calls s @
     map (\<lambda>j. (sysbus_connect_irq TIMERCTRL (int j)
                  (qdev_get_gpio_in VIC (Line (timer_irqs ! j))), err s))
       [i ..< length timer_irqs]"
proof (induction i s rule: timer_irq_loop.induct)
  case (1 i s)
  show ?case
  proof (cases "i < length timer_irqs")
    case True
    then have "[i ..< length timer_irqs] = i # [i + 1 ..< length timer_irqs]"
      by (simp add: upt_conv_Cons)
    with True 1 show ?thesis
      by (subst timer_irq_loop.simps) (simp add: Let_def)
  next
    case False
    then show ?thesis
      by (subst timer_irq_loop.simps) simp
  qed
qed

lemma timer_irq_loop_0 [simp]:
  "calls (timer_irq_loop 0 s) = calls s @
     [(sysbus_connect_irq TIMERCTRL 0 (qdev_get_gpio_in VIC (Line 16)), err s),
      (sysbus_connect_irq TIMERCTRL 1 (qdev_get_gpio_in VIC (Line 17)), err s),
      (sysbus_connect_irq TIMERCTRL 2 (qdev_get_gpio_in VIC (Line 18)), err s),
      (sysbus_connect_irq TIMERCTRL 3 (qdev_get_gpio_in VIC (Line 35)), err s),
      (sysbus_connect_irq TIMERCTRL 4 (qdev_get_gpio_in VIC (Line 36)), err s),
      (sysbus_connect_irq TIMERCTRL 5 (qdev_get_gpio_in VIC (Line 37)), err s),
      (sysbus_connect_irq TIMERCTRL 6 (qdev_get_gpio_in VIC (Line 38)), err s),
      (sysbus_connect_irq TIMERCTRL 7 (qdev_get_gpio_in VIC (Line 39)), err s)]"
  by (simp add: timer_irq_loop_calls timer_irqs_def upt_rec)

section \<open>Where a run stops\<close>

text \<open>
  If \<^verbatim>\<open>err\<close> is set when one of the tested calls returns, the run returns that
  error and the call is its last.
\<close>

lemma checkpoint_last:
  assumes "(c, Some e) \<in> set (calls (ast2400_realize K m))" and "c \<in> set checkpoints"
  shows "errp (ast2400_realize K m) = Some e \<and> last (calls (ast2400_realize K m)) = (c, Some e)"
  using assms
  by (auto simp add: ast2400_realize_def Let_def start_simps checkpoints_def
      split: if_splits option.splits)

lemma errp_is_err:
  "errp (ast2400_realize K m) = Some e \<Longrightarrow> err (ast2400_realize K m) = Some e"
  by (simp add: ast2400_realize_def Let_def start_simps split: if_splits option.splits)

text \<open>Only the five activations set a boolean property.\<close>

lemma activation_calls:
  assumes "(object_property_set_bool d b n, x) \<in> set (calls (ast2400_realize K m))"
  shows "object_property_set_bool d b n \<in> set checkpoints"
  using assms
  by (auto simp add: ast2400_realize_def Let_def start_simps checkpoints_def
      split: if_splits option.splits)

text \<open>A run that stops at an activation has activated the devices up to that one, in order.\<close>

lemma activated_until:
  assumes "(object_property_set_bool d True ''realized'', Some e) \<in> set (calls (ast2400_realize K m))"
  shows "activated (done_calls (ast2400_realize K m)) =
           takeWhile (\<lambda>x. x \<noteq> d) [VIC, TIMERCTRL, GEM, SCU, I2C] @ [d]"
  using assms
  by (auto simp add: ast2400_realize_def Let_def start_simps done_calls_def
      split: if_splits option.splits)

section \<open>The first error\<close>

text \<open>
  With setters that leave a set error alone, \<^verbatim>\<open>err\<close> always holds the first error
  recorded so far.
\<close>

lemma first_error_append:
  "first_error (xs @ ys) = (case first_error xs of None \<Rightarrow> first_error ys | Some e \<Rightarrow> Some e)"
  by (induction xs rule: first_error.induct) simp_all

lemma err_is_first_start: "err_is_first start"
  by (simp add: err_is_first_def start_simps)

lemma err_is_first_infallible: "err_is_first s \<Longrightarrow> err_is_first (infallible c s)"
  by (cases "err s") (simp_all add: err_is_first_def first_error_append)

lemma err_is_first_fallible:
  "keeps_error K \<Longrightarrow> err_is_first s \<Longrightarrow> err_is_first (fallible K c s)"
  by (cases "err s"; cases "K c None")
     (simp_all add: err_is_first_def first_error_append keeps_error_def)

lemma err_is_first_loop: "err_is_first s \<Longrightarrow> err_is_first (timer_irq_loop i s)"
  by (induction i s rule: timer_irq_loop.induct)
     (subst timer_irq_loop.simps, simp add: Let_def err_is_first_infallible)

lemma err_is_first_propagate: "err_is_first s \<Longrightarrow> err_is_first (error_propagate s)"
  by (simp add: err_is_first_def)

lemma realize_err_is_first:
  assumes "keeps_error K"
  shows "err_is_first (ast2400_realize K m)"
  by (cases "serial_hds0 m";
      simp add: ast2400_realize_def Let_def start_simps;
      intro conjI impI err_is_first_propagate err_is_first_infallible
        err_is_first_fallible [OF assms] err_is_first_loop err_is_first_start)

section \<open>The calls of a successful run\<close>

lemma success_calls:
  assumes "errp (ast2400_realize K m) = None"
  shows "done_calls (ast2400_realize K m) =
     [memory_region_allocate_system_memory SRAM ''ast2400.sram'' (AST2400_SRAM_SIZE m),
      memory_region_add_subregion SYSTEM_MEMORY (AST2400_SRAM_BASE m) SRAM,
      memory_region_init_io IOMEM ast2400_io_ops ''ast2400.io'' 0x00200000,
      memory_region_add_subregion_overlap SYSTEM_MEMORY 0x1E600000 IOMEM (- 1),
      object_property_set_int VIC 0x00001F07FFF8FFFF ''sense'',
      object_property_set_int VIC 0x000000F800070000 ''dual_edge'',
      object_property_set_int VIC 0x00005F07FFF8FFFF ''event'',
      object_property_set_bool VIC True ''realized'',
      sysbus_mmio_map VIC 0 0x1E6C0000,
      sysbus_connect_irq VIC 0 (qdev_get_gpio_in CPU ARM_CPU_IRQ),
      sysbus_connect_irq VIC 1 (qdev_get_gpio_in CPU ARM_CPU_FIQ),
      object_property_set_bool TIMERCTRL True ''realized'',
      sysbus_mmio_map TIMERCTRL 0 0x1E782000,
      sysbus_connect_irq TIMERCTRL 0 (qdev_get_gpio_in VIC (Line 16)),
      sysbus_connect_irq TIMERCTRL 1 (qdev_get_gpio_in VIC (Line 17)),
      sysbus_connect_irq TIMERCTRL 2 (qdev_get_gpio_in VIC (Line 18)),
      sysbus_connect_irq TIMERCTRL 3 (qdev_get_gpio_in VIC (Line 35)),
      sysbus_connect_irq TIMERCTRL 4 (qdev_get_gpio_in VIC (Line 36)),
      sysbus_connect_irq TIMERCTRL 5 (qdev_get_gpio_in VIC (Line 37)),
      sysbus_connect_irq TIMERCTRL 6 (qdev_get_gpio_in VIC (Line 38)),
      sysbus_connect_irq TIMERCTRL 7 (qdev_get_gpio_in VIC (Line 39)),
      qemu_check_nic_model (nd_table0 m) TYPE_CADENCE_GEM,
      qdev_set_nic_properties GEM (nd_table0 m),
      object_property_set_bool GEM True ''realized'',
      sysbus_mmio_map GEM 0 0x1E680000,
      sysbus_connect_irq GEM 0 (qdev_get_gpio_in VIC (Line 3)),
      object_property_set_int SCU 0x19FC3E8B ''scu0c'',
      object_property_set_int SCU 0x01000000 ''scu88'',
      object_property_set_int SCU 0x000000FF ''scu8c'',
      object_property_set_int SCU 0x003FFFF3 ''scu9c'',
      object_property_set_bool SCU True ''realized'',
      sysbus_mmio_map SCU 0 0x1E6E2000]
     @ (case serial_hds0 m of
          None \<Rightarrow> []
        | Some chr \<Rightarrow>
            [serial_mm_init IOMEM 0x00184000 2 (qdev_get_gpio_in VIC (Line 10)) 38400 chr
               DEVICE_LITTLE_ENDIAN])
     @ [object_property_set_bool I2C True ''realized'',
        sysbus_mmio_map I2C 0 0x1E78A000,
        sysbus_connect_irq I2C 0 (qdev_get_gpio_in VIC (Line 12)),
        i2c_create_slave 2 ''tmp423'' 0x4c,
        object_property_set_int (I2C_SLAVE 2 ''tmp423'' 0x4c) 31000 ''temperature0'',
        object_property_set_int (I2C_SLAVE 2 ''tmp423'' 0x4c) 28000 ''temperature1'',
        object_property_set_int (I2C_SLAVE 2 ''tmp423'' 0x4c) 20000 ''temperature2'',
        object_property_set_int (I2C_SLAVE 2 ''tmp423'' 0x4c) 110000 ''temperature3'',
        i2c_create_slave 0 ''ds1338'' 0x68]"
  using assms
  by (simp add: ast2400_realize_def done_calls_def Let_def start_simps
        AST2400_IOMEM_SIZE_def AST2400_IOMEM_BASE_def AST2400_VIC_BASE_def
        AST2400_TIMER_BASE_def CDNS_GEM_ADDR_def CDNS_GEM_IRQ_def AST2400_SCU_BASE_def
        AST2400_UART_5_BASE_def uart_irqs_def AST2400_I2C_BASE_def
      split: if_splits option.splits)

lemma quiet_board_ok: "errp (ast2400_realize quiet board) = None"
  by (simp add: ast2400_realize_def Let_def start_simps quiet_def board_def)

lemma quiet_headless_ok: "errp (ast2400_realize quiet headless) = None"
  by (simp add: ast2400_realize_def Let_def start_simps quiet_def board_def headless_def)

section \<open>Case analysis on where a run stops\<close>

text \<open>
  The six tests of \<^verbatim>\<open>err\<close>, in program order: a run stops at the first one that
  finds an error, or runs to the end.
\<close>

lemma stop_cases [case_names masks vic timer gem scu i2c complete]:
  obtains
    (masks) "K (object_property_set_int VIC 0x00005F07FFF8FFFF ''event'')
               (K (object_property_set_int VIC 0x000000F800070000 ''dual_edge'')
                  (K (object_property_set_int VIC 0x00001F07FFF8FFFF ''sense'') None)) \<noteq> None"
  | (vic) "K (object_property_set_int VIC 0x00005F07FFF8FFFF ''event'')
               (K (object_property_set_int VIC 0x000000F800070000 ''dual_edge'')
                  (K (object_property_set_int VIC 0x00001F07FFF8FFFF ''sense'') None)) = None"
      "K (object_property_set_bool VIC True ''realized'') None \<noteq> None"
  | (timer) "K (object_property_set_int VIC 0x00005F07FFF8FFFF ''event'')
               (K (object_property_set_int VIC 0x000000F800070000 ''dual_edge'')
                  (K (object_property_set_int VIC 0x00001F07FFF8FFFF ''sense'') None)) = None"
      "K (object_property_set_bool VIC True ''realized'') None = None"
      "K (object_property_set_bool TIMERCTRL True ''realized'') None \<noteq> None"
  | (gem) "K (object_property_set_int VIC 0x00005F07FFF8FFFF ''event'')
               (K (object_property_set_int VIC 0x000000F800070000 ''dual_edge'')
                  (K (object_property_set_int VIC 0x00001F07FFF8FFFF ''sense'') None)) = None"
      "K (object_property_set_bool VIC True ''realized'') None = None"
      "K (object_property_set_bool TIMERCTRL True ''realized'') None = None"
      "K (object_property_set_bool GEM True ''realized'') None \<noteq> None"
  | (scu) "K (object_property_set_int VIC 0x00005F07FFF8FFFF ''event'')
               (K (object_property_set_int VIC 0x000000F800070000 ''dual_edge'')
                  (K (object_property_set_int VIC 0x00001F07FFF8FFFF ''sense'') None)) = None"
      "K (object_property_set_bool VIC True ''realized'') None = None"
      "K (object_property_set_bool TIMERCTRL True ''realized'') None = None"
      "K (object_property_set_bool GEM True ''realized'') None = None"
      "K (object_property_set_bool SCU True ''realized'')
         (K (object_property_set_int SCU 0x003FFFF3 ''scu9c'')
            (K (object_property_set_int SCU 0x000000FF ''scu8c'')
               (K (object_property_set_int SCU 0x01000000 ''scu88'')
                  (K (object_property_set_int SCU 0x19FC3E8B ''scu0c'') None)))) \<noteq> None"
  | (i2c) "K (object_property_set_int VIC 0x00005F07FFF8FFFF ''event'')
               (K (object_property_set_int VIC 0x000000F800070000 ''dual_edge'')
                  (K (object_property_set_int VIC 0x00001F07FFF8FFFF ''sense'') None)) = None"
      "K (object_property_set_bool VIC True ''realized'') None = None"
      "K (object_property_set_bool TIMERCTRL True ''realized'') None = None"
      "K (object_property_set_bool GEM True ''realized'') None = None"
      "K (object_property_set_bool SCU True ''realized'')
         (K (object_property_set_int SCU 0x003FFFF3 ''scu9c'')
            (K (object_property_set_int SCU 0x000000FF ''scu8c'')
               (K (object_property_set_int SCU 0x01000000 ''scu88'')
                  (K (object_property_set_int SCU 0x19FC3E8B ''scu0c'') None)))) = None"
      "K (object_property_set_bool I2C True ''realized'') None \<noteq> None"
  | (complete) "K (object_property_set_int VIC 0x00005F07FFF8FFFF ''event'')
               (K (object_property_set_int VIC 0x000000F800070000 ''dual_edge'')
                  (K (object_property_set_int VIC 0x00001F07FFF8FFFF ''sense'') None)) = None"
      "K (object_property_set_bool VIC True ''realized'') None = None"
      "K (object_property_set_bool TIMERCTRL True ''realized'') None = None"
      "K (object_property_set_bool GEM True ''realized'') None = None"
      "K (object_property_set_bool SCU True ''realized'')
         (K (object_property_set_int SCU 0x003FFFF3 ''scu9c'')
            (K (object_property_set_int SCU 0x000000FF ''scu8c'')
               (K (object_property_set_int SCU 0x01000000 ''scu88'')
                  (K (object_property_set_int SCU 0x19FC3E8B ''scu0c'') None)))) = None"
      "K (object_property_set_bool I2C True ''realized'') None = None"
  by blast

lemma masks_always_applied:
  "take 3 (calls_on VIC (done_calls (ast2400_realize K m))) =
     [object_property_set_int VIC 0x00001F07FFF8FFFF ''sense'',
      object_property_set_int VIC 0x000000F800070000 ''dual_edge'',
      object_property_set_int VIC 0x00005F07FFF8FFFF ''event'']"
  by (cases K rule: stop_cases; cases "serial_hds0 m";
      simp add: ast2400_realize_def Let_def start_simps done_calls_def calls_on_def)

lemma scu_group:
  assumes "(object_property_set_bool GEM True ''realized'', None) \<in> set (calls (ast2400_realize K m))"
  shows "take 5 (calls_on SCU (done_calls (ast2400_realize K m))) =
     [object_property_set_int SCU 0x19FC3E8B ''scu0c'',
      object_property_set_int SCU 0x01000000 ''scu88'',
      object_property_set_int SCU 0x000000FF ''scu8c'',
      object_property_set_int SCU 0x003FFFF3 ''scu9c'',
      object_property_set_bool SCU True ''realized'']"
  using assms
  by (cases K rule: stop_cases; cases "serial_hds0 m";
      simp add: ast2400_realize_def Let_def start_simps done_calls_def calls_on_def)

text \<open>A run that stops at an activation has made no call on a later peripheral.\<close>

lemma later_untouched:
  assumes "(object_property_set_bool d True ''realized'', Some e) \<in> set (calls (ast2400_realize K m))"
  shows "list_all (\<lambda>d'. calls_on d' (done_calls (ast2400_realize K m)) = [])
           (tl (dropWhile (\<lambda>x. x \<noteq> d) [VIC, TIMERCTRL, GEM, SCU, I2C]))
       \<and> (d \<noteq> I2C \<longrightarrow> uarts (done_calls (ast2400_realize K m)) = [])"
  using assms
  by (cases K rule: stop_cases; cases "serial_hds0 m";
      auto simp add: ast2400_realize_def Let_def start_simps done_calls_def calls_on_def uarts_def)

lemma errp_ignores_nic:
  "errp (ast2400_realize K (m\<lparr>nd_table0 := nd\<rparr>)) = errp (ast2400_realize K m)"
  by (cases K rule: stop_cases; cases "serial_hds0 m";
      simp add: ast2400_realize_def Let_def start_simps)

lemma nic_steps:
  assumes "(object_property_set_bool TIMERCTRL True ''realized'', None) \<in> set (calls (ast2400_realize K m))"
  shows "qemu_check_nic_model (nd_table0 m) TYPE_CADENCE_GEM \<in> set (done_calls (ast2400_realize K m))
       \<and> take 2 (calls_on GEM (done_calls (ast2400_realize K m))) =
           [qdev_set_nic_properties GEM (nd_table0 m), object_property_set_bool GEM True ''realized'']"
  using assms
  by (cases K rule: stop_cases; cases "serial_hds0 m";
      simp add: ast2400_realize_def Let_def start_simps done_calls_def calls_on_def)

lemma no_uart_no_serial_region:
  "uarts cs = [] \<Longrightarrow>
     list_all (\<lambda>x. m_target x \<noteq> Serial) (concat (map (mapped_by mmio_size every container) cs))"
proof (induction cs)
  case Nil
  then show ?case by simp
next
  case (Cons c cs)
  then show ?case
    by (cases c) (auto simp add: uarts_def split: if_splits)
qed

lemma no_backend_no_uart:
  assumes "serial_hds0 m = None"
  shows "uarts (done_calls (ast2400_realize K m)) = []"
  using assms
  by (cases K rule: stop_cases;
      simp add: ast2400_realize_def Let_def start_simps done_calls_def uarts_def)

lemma serial_backend_only_adds_the_uart:
  assumes "serial_hds0 m = None"
  shows "errp (ast2400_realize K m) = errp (ast2400_realize K (m\<lparr>serial_hds0 := Some chr\<rparr>))
       \<and> done_calls (ast2400_realize K m) =
           filter (\<lambda>c. \<not> is_serial_mm_init c)
             (done_calls (ast2400_realize K (m\<lparr>serial_hds0 := Some chr\<rparr>)))"
  using assms
  by (cases K rule: stop_cases;
      simp add: ast2400_realize_def Let_def start_simps done_calls_def)

lemma no_failure_no_error:
  assumes "\<forall>c. K c None = None"
  shows "errp (ast2400_realize K m) = None"
  using assms
  by (cases "serial_hds0 m") (simp_all add: ast2400_realize_def Let_def start_simps)

section \<open>Facts about the address space\<close>

lemma resolve_mem:
  assumes "x \<in> set ms" "covers x a" "\<forall>y \<in> set ms. m_priority y \<le> m_priority x"
  shows "m_target x \<in> set (resolve ms a)"
  using assms by (auto simp add: resolve_def Let_def list_all_iff)

lemma resolve_not_mem:
  assumes "\<forall>x \<in> set ms. m_target x = t \<longrightarrow> (\<exists>y \<in> set ms. covers y a \<and> m_priority x < m_priority y)"
  shows "t \<notin> set (resolve ms a)"
  using assms by (fastforce simp add: resolve_def Let_def list_all_iff)

lemma success_system_memory:
  assumes "errp (ast2400_realize K m) = None"
  shows "subregions mmio_size (done_calls (ast2400_realize K m)) SYSTEM_MEMORY =
     [\<lparr>m_base = AST2400_SRAM_BASE m, m_size = AST2400_SRAM_SIZE m, m_priority = 0, m_target = Region SRAM\<rparr>,
      \<lparr>m_base = 0x1E600000, m_size = 0x00200000, m_priority = - 1, m_target = Region IOMEM\<rparr>,
      \<lparr>m_base = 0x1E6C0000, m_size = mmio_size VIC, m_priority = 0, m_target = Mmio VIC 0\<rparr>,
      \<lparr>m_base = 0x1E782000, m_size = mmio_size TIMERCTRL, m_priority = 0, m_target = Mmio TIMERCTRL 0\<rparr>,
      \<lparr>m_base = 0x1E680000, m_size = mmio_size GEM, m_priority = 0, m_target = Mmio GEM 0\<rparr>,
      \<lparr>m_base = 0x1E6E2000, m_size = mmio_size SCU, m_priority = 0, m_target = Mmio SCU 0\<rparr>,
      \<lparr>m_base = 0x1E78A000, m_size = mmio_size I2C, m_priority = 0, m_target = Mmio I2C 0\<rparr>]"
  by (cases "serial_hds0 m") (simp_all add: success_calls [OF assms] subregions_def)

lemma peripheral_mapped:
  assumes ok: "errp (ast2400_realize K m) = None"
    and p: "(d, base) \<in> set peripheral_bases"
  shows "\<lparr>m_base = base, m_size = mmio_size d, m_priority = 0, m_target = Mmio d 0\<rparr>
           \<in> set (subregions mmio_size (done_calls (ast2400_realize K m)) SYSTEM_MEMORY)"
  using p
  by (auto simp add: success_system_memory [OF ok] peripheral_bases_def AST2400_VIC_BASE_def
      AST2400_TIMER_BASE_def CDNS_GEM_ADDR_def AST2400_SCU_BASE_def AST2400_I2C_BASE_def)

lemma covers_own_base: "m_size x \<noteq> 0 \<Longrightarrow> covers x (m_base x)"
  by (simp add: covers_def word_neq_0_conv)

lemma catch_all_covers:
  assumes "(d, base) \<in> set peripheral_bases"
  shows "covers catch_all base"
  using assms
  by (auto simp add: peripheral_bases_def covers_def catch_all_def AST2400_VIC_BASE_def
      AST2400_TIMER_BASE_def CDNS_GEM_ADDR_def AST2400_SCU_BASE_def AST2400_I2C_BASE_def
      AST2400_IOMEM_BASE_def AST2400_IOMEM_SIZE_def)

section \<open>The claims\<close>

subsection \<open>C1: a failed activation ends the run\<close>

text \<open>
  Claim C1. If setting \<^verbatim>\<open>realized\<close> on the interrupt controller, the timer block, the
  network MAC, the system control unit or the I2C controller leaves an error, compose
  returns that error and makes no further call: the failed activation is the last call of
  the run; the devices activated are exactly those up to the failed one in the order
  VIC, timer, MAC, SCU, I2C; no call at all (no parameter, activation, mapping or
  interrupt connection) has been made on a peripheral later in that order, and unless the
  failed one is the I2C controller no UART has been created. With setters that leave a
  set error alone, the error returned is the first one recorded in the run.
\<close>

theorem C1_failed_activation_stops_the_run:
  assumes "(object_property_set_bool d True ''realized'', Some e) \<in> set (calls (ast2400_realize K m))"
  shows "errp (ast2400_realize K m) = Some e
       \<and> last (calls (ast2400_realize K m)) = (object_property_set_bool d True ''realized'', Some e)
       \<and> activated (done_calls (ast2400_realize K m)) =
           takeWhile (\<lambda>x. x \<noteq> d) [VIC, TIMERCTRL, GEM, SCU, I2C] @ [d]
       \<and> list_all (\<lambda>d'. calls_on d' (done_calls (ast2400_realize K m)) = [])
           (tl (dropWhile (\<lambda>x. x \<noteq> d) [VIC, TIMERCTRL, GEM, SCU, I2C]))
       \<and> (d \<noteq> I2C \<longrightarrow> uarts (done_calls (ast2400_realize K m)) = [])
       \<and> (keeps_error K \<longrightarrow> first_error (calls (ast2400_realize K m)) = Some e)"
proof -
  from checkpoint_last [OF assms activation_calls [OF assms]]
  have stop: "errp (ast2400_realize K m) = Some e"
    "last (calls (ast2400_realize K m)) = (object_property_set_bool d True ''realized'', Some e)"
    by simp_all
  have "first_error (calls (ast2400_realize K m)) = Some e" if "keeps_error K"
    using realize_err_is_first [OF that, of m] errp_is_err [OF stop(1)]
    by (simp add: err_is_first_def)
  with stop activated_until [OF assms] later_untouched [OF assms] show ?thesis
    by blast
qed

theorem C1_witness:
  "(object_property_set_bool GEM True ''realized'', Some (Error ''gem''))
      \<in> set (calls (ast2400_realize
                 (failing_at (object_property_set_bool GEM True ''realized'') (Error ''gem'')) board))
   \<and> errp (ast2400_realize
                 (failing_at (object_property_set_bool GEM True ''realized'') (Error ''gem'')) board)
       = Some (Error ''gem'')
   \<and> activated (done_calls (ast2400_realize
                 (failing_at (object_property_set_bool GEM True ''realized'') (Error ''gem'')) board))
       = [VIC, TIMERCTRL, GEM]
   \<and> calls_on SCU (done_calls (ast2400_realize
                 (failing_at (object_property_set_bool GEM True ''realized'') (Error ''gem'')) board))
       = []
   \<and> calls_on I2C (done_calls (ast2400_realize
                 (failing_at (object_property_set_bool GEM True ''realized'') (Error ''gem'')) board))
       = []
   \<and> uarts (done_calls (ast2400_realize
                 (failing_at (object_property_set_bool GEM True ''realized'') (Error ''gem'')) board))
       = []
   \<and> first_error (calls (ast2400_realize
                 (failing_at (object_property_set_bool GEM True ''realized'') (Error ''gem'')) board))
       = Some (Error ''gem'')"
proof -
  let ?K = "failing_at (object_property_set_bool GEM True ''realized'') (Error ''gem'')"
  have h: "(object_property_set_bool GEM True ''realized'', Some (Error ''gem''))
      \<in> set (calls (ast2400_realize ?K board))"
    by (simp add: ast2400_realize_def Let_def start_simps failing_at_def)
  have k: "keeps_error ?K"
    by (simp add: keeps_error_def failing_at_def)
  from C1_failed_activation_stops_the_run [OF h] k h show ?thesis
    by simp
qed

subsection \<open>C2: the timer interrupt table\<close>

text \<open>
  Claim C2. After a successful composition the timer block has exactly its outputs 0 to 7
  connected, output \<open>i\<close> to the interrupt-controller input at position \<open>i\<close> of the table
  16, 17, 18, 35, 36, 37, 38, 39.
\<close>

theorem C2_timer_outputs_follow_the_table:
  assumes "errp (ast2400_realize K m) = None"
  shows "irq_wiring TIMERCTRL (done_calls (ast2400_realize K m)) =
           map (\<lambda>i. (int i, qdev_get_gpio_in VIC (Line ([16, 17, 18, 35, 36, 37, 38, 39] ! i))))
             [0 ..< 8]"
  by (cases "serial_hds0 m") (simp_all add: success_calls [OF assms] upt_rec)

theorem C2_witness:
  "errp (ast2400_realize quiet board) = None
   \<and> irq_wiring TIMERCTRL (done_calls (ast2400_realize quiet board)) =
       [(0, qdev_get_gpio_in VIC (Line 16)), (1, qdev_get_gpio_in VIC (Line 17)),
        (2, qdev_get_gpio_in VIC (Line 18)), (3, qdev_get_gpio_in VIC (Line 35)),
        (4, qdev_get_gpio_in VIC (Line 36)), (5, qdev_get_gpio_in VIC (Line 37)),
        (6, qdev_get_gpio_in VIC (Line 38)), (7, qdev_get_gpio_in VIC (Line 39))]"
  using C2_timer_outputs_follow_the_table [OF quiet_board_ok] quiet_board_ok
  by (simp add: upt_rec)

subsection \<open>C3: the catch-all handlers\<close>

text \<open>
  Claim C3. For every offset and every access size, a read of the catch-all region
  returns 0 and hands the logger one line with the offset and the size; a write hands the
  logger one line with the offset, the value and the size and drops the value. Neither
  changes the state behind the opaque pointer, and neither has a failing outcome (both
  are total functions without an error result).
\<close>

theorem C3_catch_all_handlers:
  "fst (ast2400_io_read st offset sz) = 0
   \<and> snd (ast2400_io_read st offset sz) =
       st\<lparr>qemu_log := qemu_log st @ [(LOG_UNIMP, ReadLine ''ast2400_io_read'' offset sz)]\<rparr>
   \<and> opaque (snd (ast2400_io_read st offset sz)) = opaque st
   \<and> ast2400_io_write st offset v sz =
       st\<lparr>qemu_log := qemu_log st @ [(LOG_UNIMP, WriteLine ''ast2400_io_write'' offset v sz)]\<rparr>
   \<and> opaque (ast2400_io_write st offset v sz) = opaque st"
  by (simp add: ast2400_io_read_def ast2400_io_write_def qemu_log_mask_def Let_def)

subsection \<open>C4: the catch-all region lies under the peripherals\<close>

text \<open>
  Claim C4. After a successful composition the catch-all region, set up with the table
  \<^verbatim>\<open>ast2400_io_ops\<close>, is mapped once, at the base of the IO window and with
  priority -1, below every other region of the system memory (all of priority 0). Each of the five peripheral base addresses lies in the IO
  window, and an access at the base of a peripheral with a non-empty register window is
  served by that peripheral's region and never by the catch-all region; where no other
  concrete region reaches over that base address, the peripheral's region is the only
  one that serves it. The register windows' sizes and the SRAM's place are parameters.
\<close>

theorem C4_peripherals_lie_over_the_catch_all:
  assumes ok: "errp (ast2400_realize K m) = None"
    and p: "(d, base) \<in> set peripheral_bases"
    and sz: "mmio_size d \<noteq> 0"
  shows "memory_region_init_io IOMEM ast2400_io_ops ''ast2400.io'' AST2400_IOMEM_SIZE
           \<in> set (done_calls (ast2400_realize K m))
       \<and> filter (\<lambda>x. m_target x = Region IOMEM)
           (subregions mmio_size (done_calls (ast2400_realize K m)) SYSTEM_MEMORY) = [catch_all]
       \<and> list_all (\<lambda>x. m_target x = Region IOMEM \<or> m_priority catch_all < m_priority x)
           (subregions mmio_size (done_calls (ast2400_realize K m)) SYSTEM_MEMORY)
       \<and> covers catch_all base
       \<and> Mmio d 0 \<in> set (resolve (subregions mmio_size (done_calls (ast2400_realize K m)) SYSTEM_MEMORY) base)
       \<and> Region IOMEM \<notin> set (resolve (subregions mmio_size (done_calls (ast2400_realize K m)) SYSTEM_MEMORY) base)
       \<and> (list_all (\<lambda>x. covers x base \<longrightarrow> m_target x = Mmio d 0 \<or> m_target x = Region IOMEM)
            (subregions mmio_size (done_calls (ast2400_realize K m)) SYSTEM_MEMORY)
          \<longrightarrow> resolve (subregions mmio_size (done_calls (ast2400_realize K m)) SYSTEM_MEMORY) base
                = [Mmio d 0])"
proof -
  let ?ms = "subregions mmio_size (done_calls (ast2400_realize K m)) SYSTEM_MEMORY"
  let ?x = "\<lparr>m_base = base, m_size = mmio_size d, m_priority = 0, m_target = Mmio d 0\<rparr>"
  note ms = success_system_memory [OF ok, of mmio_size]
  have x: "?x \<in> set ?ms"
    by (rule peripheral_mapped [OF ok p])
  have cx: "covers ?x base"
    using covers_own_base [of ?x] sz by simp
  have io: "memory_region_init_io IOMEM ast2400_io_ops ''ast2400.io'' AST2400_IOMEM_SIZE
      \<in> set (done_calls (ast2400_realize K m))"
    by (cases "serial_hds0 m") (simp_all add: success_calls [OF ok] AST2400_IOMEM_SIZE_def)
  have one: "filter (\<lambda>x. m_target x = Region IOMEM) ?ms = [catch_all]"
    by (simp add: ms catch_all_def AST2400_IOMEM_BASE_def AST2400_IOMEM_SIZE_def)
  have above: "list_all (\<lambda>x. m_target x = Region IOMEM \<or> m_priority catch_all < m_priority x) ?ms"
    by (simp add: ms catch_all_def)
  have top: "\<forall>y \<in> set ?ms. m_priority y \<le> m_priority ?x"
    by (simp add: ms)
  have r1: "Mmio d 0 \<in> set (resolve ?ms base)"
    using resolve_mem [OF x cx top] by simp
  have r2: "Region IOMEM \<notin> set (resolve ?ms base)"
  proof (rule resolve_not_mem, intro ballI impI)
    fix y assume "y \<in> set ?ms" "m_target y = Region IOMEM"
    then have "m_priority y < m_priority ?x"
      by (auto simp add: ms)
    with x cx show "\<exists>z \<in> set ?ms. covers z base \<and> m_priority y < m_priority z"
      by blast
  qed
  have r3: "resolve ?ms base = [Mmio d 0]"
    if "list_all (\<lambda>x. covers x base \<longrightarrow> m_target x = Mmio d 0 \<or> m_target x = Region IOMEM) ?ms"
  proof -
    have "filter (\<lambda>x. covers x base) ?ms = [catch_all, ?x]"
      using that p cx catch_all_covers [OF p]
      by (auto simp add: ms peripheral_bases_def catch_all_def AST2400_VIC_BASE_def
          AST2400_TIMER_BASE_def CDNS_GEM_ADDR_def AST2400_SCU_BASE_def AST2400_I2C_BASE_def
          AST2400_IOMEM_BASE_def AST2400_IOMEM_SIZE_def)
    then show ?thesis
      by (simp add: resolve_def Let_def catch_all_def)
  qed
  from io one above catch_all_covers [OF p] r1 r2 r3 show ?thesis
    by blast
qed

theorem C4_witness:
  "errp (ast2400_realize quiet board) = None
   \<and> (VIC, AST2400_VIC_BASE) \<in> set peripheral_bases
   \<and> page_windows VIC \<noteq> 0
   \<and> covers catch_all AST2400_VIC_BASE
   \<and> resolve (subregions page_windows (done_calls (ast2400_realize quiet board)) SYSTEM_MEMORY)
        AST2400_VIC_BASE = [Mmio VIC 0]"
proof -
  have p: "(VIC, AST2400_VIC_BASE) \<in> set peripheral_bases"
    by (simp add: peripheral_bases_def)
  have sz: "page_windows VIC \<noteq> 0"
    by (simp add: page_windows_def)
  have alone: "list_all (\<lambda>x. covers x AST2400_VIC_BASE \<longrightarrow>
                   m_target x = Mmio VIC 0 \<or> m_target x = Region IOMEM)
         (subregions page_windows (done_calls (ast2400_realize quiet board)) SYSTEM_MEMORY)"
    unfolding success_system_memory [OF quiet_board_ok]
    by (simp add: covers_def page_windows_def board_def AST2400_VIC_BASE_def)
  from C4_peripherals_lie_over_the_catch_all
         [of quiet board VIC AST2400_VIC_BASE page_windows, OF quiet_board_ok p sz]
       alone quiet_board_ok p sz
  show ?thesis
    by simp
qed

subsection \<open>C5: where the error channel is tested\<close>

text \<open>
  Claim C5, as the spec states it, fails: the setters are not tested one by one. In the
  run below the first mask application (\<^verbatim>\<open>sense\<close>) fails, and the two other masks are
  still applied before \<^verbatim>\<open>err\<close> is looked at.
\<close>

theorem C5_counterexample:
  "calls (ast2400_realize
            (failing_at (object_property_set_int VIC 0x00001F07FFF8FFFF ''sense'') (Error ''sense''))
            board) ! 4
     = (object_property_set_int VIC 0x00001F07FFF8FFFF ''sense'', Some (Error ''sense''))
   \<and> calls (ast2400_realize
            (failing_at (object_property_set_int VIC 0x00001F07FFF8FFFF ''sense'') (Error ''sense''))
            board) ! 5
     = (object_property_set_int VIC 0x000000F800070000 ''dual_edge'', Some (Error ''sense''))
   \<and> calls (ast2400_realize
            (failing_at (object_property_set_int VIC 0x00001F07FFF8FFFF ''sense'') (Error ''sense''))
            board) ! 6
     = (object_property_set_int VIC 0x00005F07FFF8FFFF ''event'', Some (Error ''sense''))
   \<and> length (calls (ast2400_realize
            (failing_at (object_property_set_int VIC 0x00001F07FFF8FFFF ''sense'') (Error ''sense''))
            board)) = 7"
  by (simp add: ast2400_realize_def Let_def start_simps failing_at_def)

text \<open>
  Claim C5, amended. \<^verbatim>\<open>err\<close> is tested right after the last of the three mask
  applications and right after each of the five activations: if it is set there, compose
  returns its content and that call is the last of the run. The property applications
  are made in groups that are tested once, at the end of the group: the three masks of
  the interrupt controller are applied in every run, and once the network MAC is
  activated the four presets of the system control unit and its activation are all made.
\<close>

theorem C5_errors_are_tested_after_each_group:
  "(\<forall>c e. (c, Some e) \<in> set (calls (ast2400_realize K m)) \<and> c \<in> set checkpoints \<longrightarrow>
       errp (ast2400_realize K m) = Some e \<and> last (calls (ast2400_realize K m)) = (c, Some e))
   \<and> take 3 (calls_on VIC (done_calls (ast2400_realize K m))) =
       [object_property_set_int VIC 0x00001F07FFF8FFFF ''sense'',
        object_property_set_int VIC 0x000000F800070000 ''dual_edge'',
        object_property_set_int VIC 0x00005F07FFF8FFFF ''event'']
   \<and> ((object_property_set_bool GEM True ''realized'', None) \<in> set (calls (ast2400_realize K m)) \<longrightarrow>
       take 5 (calls_on SCU (done_calls (ast2400_realize K m))) =
         [object_property_set_int SCU 0x19FC3E8B ''scu0c'',
          object_property_set_int SCU 0x01000000 ''scu88'',
          object_property_set_int SCU 0x000000FF ''scu8c'',
          object_property_set_int SCU 0x003FFFF3 ''scu9c'',
          object_property_set_bool SCU True ''realized''])"
  using checkpoint_last [of _ _ K m] masks_always_applied [of K m] scu_group [of K m]
  by blast

theorem C5_witness:
  "(object_property_set_bool SCU True ''realized'', Some (Error ''scu''))
      \<in> set (calls (ast2400_realize
                 (failing_at (object_property_set_bool SCU True ''realized'') (Error ''scu'')) board))
   \<and> object_property_set_bool SCU True ''realized'' \<in> set checkpoints
   \<and> errp (ast2400_realize
                 (failing_at (object_property_set_bool SCU True ''realized'') (Error ''scu'')) board)
       = Some (Error ''scu'')
   \<and> last (calls (ast2400_realize
                 (failing_at (object_property_set_bool SCU True ''realized'') (Error ''scu'')) board))
       = (object_property_set_bool SCU True ''realized'', Some (Error ''scu''))
   \<and> (object_property_set_bool GEM True ''realized'', None)
      \<in> set (calls (ast2400_realize
                 (failing_at (object_property_set_bool SCU True ''realized'') (Error ''scu'')) board))
   \<and> take 5 (calls_on SCU (done_calls (ast2400_realize
                 (failing_at (object_property_set_bool SCU True ''realized'') (Error ''scu'')) board))) =
         [object_property_set_int SCU 0x19FC3E8B ''scu0c'',
          object_property_set_int SCU 0x01000000 ''scu88'',
          object_property_set_int SCU 0x000000FF ''scu8c'',
          object_property_set_int SCU 0x003FFFF3 ''scu9c'',
          object_property_set_bool SCU True ''realized'']"
proof -
  let ?K = "failing_at (object_property_set_bool SCU True ''realized'') (Error ''scu'')"
  have h: "(object_property_set_bool SCU True ''realized'', Some (Error ''scu''))
      \<in> set (calls (ast2400_realize ?K board))"
    by (simp add: ast2400_realize_def Let_def start_simps failing_at_def)
  have g: "(object_property_set_bool GEM True ''realized'', None)
      \<in> set (calls (ast2400_realize ?K board))"
    by (simp add: ast2400_realize_def Let_def start_simps failing_at_def)
  have c: "object_property_set_bool SCU True ''realized'' \<in> set checkpoints"
    by (simp add: checkpoints_def)
  from C5_errors_are_tested_after_each_group [of ?K board] h g c show ?thesis
    by blast
qed

subsection \<open>C6: the network step\<close>

text \<open>
  Claim C6, as the spec states it, fails: with no network backend in
  \<^verbatim>\<open>nd_table[0]\<close> and setters that report no error, compose succeeds and all five
  peripherals are activated.
\<close>

theorem C6_counterexample:
  "nd_netdev (nd_table0 board) = None
   \<and> errp (ast2400_realize quiet board) = None
   \<and> activated (done_calls (ast2400_realize quiet board)) = [VIC, TIMERCTRL, GEM, SCU, I2C]"
  by (simp add: success_calls [OF quiet_board_ok] quiet_board_ok) (simp add: board_def)

text \<open>
  Claim C6, amended. The network step is neither skipped nor made to depend on a
  backend: whatever \<^verbatim>\<open>nd_table[0]\<close> holds, compose returns the same result for the same
  setters; once the timer block is activated, \<^verbatim>\<open>nd_table[0]\<close> is handed to
  \<^verbatim>\<open>qemu_check_nic_model\<close> and \<^verbatim>\<open>qdev_set_nic_properties\<close> and the MAC is
  activated; and compose fails at this step when the MAC's activation leaves an error,
  which it returns.
\<close>

theorem C6_network_step_is_unconditional:
  "errp (ast2400_realize K (m\<lparr>nd_table0 := nd\<rparr>)) = errp (ast2400_realize K m)
   \<and> ((object_property_set_bool TIMERCTRL True ''realized'', None) \<in> set (calls (ast2400_realize K m)) \<longrightarrow>
        qemu_check_nic_model (nd_table0 m) TYPE_CADENCE_GEM \<in> set (done_calls (ast2400_realize K m))
        \<and> take 2 (calls_on GEM (done_calls (ast2400_realize K m))) =
            [qdev_set_nic_properties GEM (nd_table0 m), object_property_set_bool GEM True ''realized''])
   \<and> (\<forall>e. (object_property_set_bool GEM True ''realized'', Some e) \<in> set (calls (ast2400_realize K m)) \<longrightarrow>
        errp (ast2400_realize K m) = Some e)"
proof -
  have "object_property_set_bool GEM True ''realized'' \<in> set checkpoints"
    by (simp add: checkpoints_def)
  with checkpoint_last [of _ _ K m] errp_ignores_nic [of K nd m] nic_steps [of K m]
  show ?thesis
    by blast
qed

theorem C6_witness:
  "(object_property_set_bool TIMERCTRL True ''realized'', None)
      \<in> set (calls (ast2400_realize
                 (failing_at (object_property_set_bool GEM True ''realized'') (Error ''gem'')) board))
   \<and> (object_property_set_bool GEM True ''realized'', Some (Error ''gem''))
      \<in> set (calls (ast2400_realize
                 (failing_at (object_property_set_bool GEM True ''realized'') (Error ''gem'')) board))
   \<and> qemu_check_nic_model (nd_table0 board) TYPE_CADENCE_GEM
      \<in> set (done_calls (ast2400_realize
                 (failing_at (object_property_set_bool GEM True ''realized'') (Error ''gem'')) board))
   \<and> take 2 (calls_on GEM (done_calls (ast2400_realize
                 (failing_at (object_property_set_bool GEM True ''realized'') (Error ''gem'')) board))) =
        [qdev_set_nic_properties GEM (nd_table0 board), object_property_set_bool GEM True ''realized'']
   \<and> errp (ast2400_realize
                 (failing_at (object_property_set_bool GEM True ''realized'') (Error ''gem'')) board)
       = Some (Error ''gem'')"
proof -
  let ?K = "failing_at (object_property_set_bool GEM True ''realized'') (Error ''gem'')"
  have t: "(object_property_set_bool TIMERCTRL True ''realized'', None)
      \<in> set (calls (ast2400_realize ?K board))"
    by (simp add: ast2400_realize_def Let_def start_simps failing_at_def)
  have g: "(object_property_set_bool GEM True ''realized'', Some (Error ''gem''))
      \<in> set (calls (ast2400_realize ?K board))"
    by (simp add: ast2400_realize_def Let_def start_simps failing_at_def)
  from C6_network_step_is_unconditional [where K = ?K and m = board and nd = "nd_table0 board"] t g
  show ?thesis
    by blast
qed

subsection \<open>C7: the UART\<close>

text \<open>
  Claim C7, as the spec states it, fails on the register stride: the UART is created with
  register shift 2, that is with its registers 4 bytes (32 bits) apart, not 16 bits.
\<close>

theorem C7_counterexample:
  "errp (ast2400_realize quiet board) = None
   \<and> serial_hds0 board = Some ''serial0''
   \<and> map (\<lambda>c. 8 * reg_stride_bytes c) (uarts (done_calls (ast2400_realize quiet board))) = [32]
   \<and> map (\<lambda>c. 8 * reg_stride_bytes c) (uarts (done_calls (ast2400_realize quiet board))) \<noteq> [16]"
  by (simp add: success_calls [OF quiet_board_ok] quiet_board_ok uarts_def) (simp add: board_def)

text \<open>
  Claim C7, amended. In a successful composition with a serial backend exactly one UART
  is created, inside the catch-all IO region at offset 0x00184000 (which lies within the
  region's size), with register shift 2 (registers 4 bytes apart), baud base 38400,
  little-endian, on the backend supplied, and with interrupt-controller input 10 as its
  interrupt line.
\<close>

theorem C7_one_uart_in_the_io_region:
  assumes "errp (ast2400_realize K m) = None" and "serial_hds0 m = Some chr"
  shows "uarts (done_calls (ast2400_realize K m)) =
           [serial_mm_init IOMEM 0x00184000 2 (qdev_get_gpio_in VIC (Line 10)) 38400 chr
              DEVICE_LITTLE_ENDIAN]
       \<and> map reg_stride_bytes (uarts (done_calls (ast2400_realize K m))) = [4]
       \<and> AST2400_UART_5_BASE = 0x00184000
       \<and> AST2400_UART_5_BASE < AST2400_IOMEM_SIZE"
  using assms(2)
  by (simp add: success_calls [OF assms(1)] uarts_def AST2400_UART_5_BASE_def
      AST2400_IOMEM_SIZE_def)

theorem C7_witness:
  "errp (ast2400_realize quiet board) = None
   \<and> serial_hds0 board = Some ''serial0''
   \<and> uarts (done_calls (ast2400_realize quiet board)) =
           [serial_mm_init IOMEM 0x00184000 2 (qdev_get_gpio_in VIC (Line 10)) 38400 ''serial0''
              DEVICE_LITTLE_ENDIAN]
   \<and> map reg_stride_bytes (uarts (done_calls (ast2400_realize quiet board))) = [4]"
proof -
  have s: "serial_hds0 board = Some ''serial0''"
    by (simp add: board_def)
  from C7_one_uart_in_the_io_region [OF quiet_board_ok s] quiet_board_ok s show ?thesis
    by simp
qed

subsection \<open>C8: no serial backend\<close>

text \<open>
  Claim C8. Without a serial backend no UART is created and no UART region is mapped,
  in the system memory or in the IO region; compose returns what it returns with a
  backend, and makes the same calls but the one that creates the UART; when no setter
  reports an error it succeeds; and a successful run has made every other call of the
  bring-up, in the source's order: the SRAM and the IO region, the interrupt controller's
  masks, activation, mapping and CPU connections, the timer block with its eight
  connections, the network MAC, the system control unit, the I2C controller and the two
  slave devices with the sensor's presets. All five peripherals are activated and mapped
  in the system memory, and nothing is mapped inside the IO region.
\<close>

theorem C8_no_serial_backend_is_not_an_error:
  assumes "serial_hds0 m = None"
  shows "uarts (done_calls (ast2400_realize K m)) = []
       \<and> list_all (\<lambda>x. m_target x \<noteq> Serial)
           (subregions mmio_size (done_calls (ast2400_realize K m)) SYSTEM_MEMORY
            @ subregions mmio_size (done_calls (ast2400_realize K m)) IOMEM)
       \<and> errp (ast2400_realize K m) = errp (ast2400_realize K (m\<lparr>serial_hds0 := Some chr\<rparr>))
       \<and> done_calls (ast2400_realize K m) =
           filter (\<lambda>c. \<not> is_serial_mm_init c)
             (done_calls (ast2400_realize K (m\<lparr>serial_hds0 := Some chr\<rparr>)))
       \<and> ((\<forall>c. K c None = None) \<longrightarrow> errp (ast2400_realize K m) = None)
       \<and> (errp (ast2400_realize K m) = None \<longrightarrow>
            done_calls (ast2400_realize K m) =
              [memory_region_allocate_system_memory SRAM ''ast2400.sram'' (AST2400_SRAM_SIZE m),
               memory_region_add_subregion SYSTEM_MEMORY (AST2400_SRAM_BASE m) SRAM,
               memory_region_init_io IOMEM ast2400_io_ops ''ast2400.io'' 0x00200000,
               memory_region_add_subregion_overlap SYSTEM_MEMORY 0x1E600000 IOMEM (- 1),
               object_property_set_int VIC 0x00001F07FFF8FFFF ''sense'',
               object_property_set_int VIC 0x000000F800070000 ''dual_edge'',
               object_property_set_int VIC 0x00005F07FFF8FFFF ''event'',
               object_property_set_bool VIC True ''realized'',
               sysbus_mmio_map VIC 0 0x1E6C0000,
               sysbus_connect_irq VIC 0 (qdev_get_gpio_in CPU ARM_CPU_IRQ),
               sysbus_connect_irq VIC 1 (qdev_get_gpio_in CPU ARM_CPU_FIQ),
               object_property_set_bool TIMERCTRL True ''realized'',
               sysbus_mmio_map TIMERCTRL 0 0x1E782000,
               sysbus_connect_irq TIMERCTRL 0 (qdev_get_gpio_in VIC (Line 16)),
               sysbus_connect_irq TIMERCTRL 1 (qdev_get_gpio_in VIC (Line 17)),
               sysbus_connect_irq TIMERCTRL 2 (qdev_get_gpio_in VIC (Line 18)),
               sysbus_connect_irq TIMERCTRL 3 (qdev_get_gpio_in VIC (Line 35)),
               sysbus_connect_irq TIMERCTRL 4 (qdev_get_gpio_in VIC (Line 36)),
               sysbus_connect_irq TIMERCTRL 5 (qdev_get_gpio_in VIC (Line 37)),
               sysbus_connect_irq TIMERCTRL 6 (qdev_get_gpio_in VIC (Line 38)),
               sysbus_connect_irq TIMERCTRL 7 (qdev_get_gpio_in VIC (Line 39)),
               qemu_check_nic_model (nd_table0 m) TYPE_CADENCE_GEM,
               qdev_set_nic_properties GEM (nd_table0 m),
               object_property_set_bool GEM True ''realized'',
               sysbus_mmio_map GEM 0 0x1E680000,
               sysbus_connect_irq GEM 0 (qdev_get_gpio_in VIC (Line 3)),
               object_property_set_int SCU 0x19FC3E8B ''scu0c'',
               object_property_set_int SCU 0x01000000 ''scu88'',
               object_property_set_int SCU 0x000000FF ''scu8c'',
               object_property_set_int SCU 0x003FFFF3 ''scu9c'',
               object_property_set_bool SCU True ''realized'',
               sysbus_mmio_map SCU 0 0x1E6E2000,
               object_property_set_bool I2C True ''realized'',
               sysbus_mmio_map I2C 0 0x1E78A000,
               sysbus_connect_irq I2C 0 (qdev_get_gpio_in VIC (Line 12)),
               i2c_create_slave 2 ''tmp423'' 0x4c,
               object_property_set_int (I2C_SLAVE 2 ''tmp423'' 0x4c) 31000 ''temperature0'',
               object_property_set_int (I2C_SLAVE 2 ''tmp423'' 0x4c) 28000 ''temperature1'',
               object_property_set_int (I2C_SLAVE 2 ''tmp423'' 0x4c) 20000 ''temperature2'',
               object_property_set_int (I2C_SLAVE 2 ''tmp423'' 0x4c) 110000 ''temperature3'',
               i2c_create_slave 0 ''ds1338'' 0x68]
          \<and> activated (done_calls (ast2400_realize K m)) = [VIC, TIMERCTRL, GEM, SCU, I2C]
          \<and> map m_target (subregions mmio_size (done_calls (ast2400_realize K m)) SYSTEM_MEMORY) =
              [Region SRAM, Region IOMEM, Mmio VIC 0, Mmio TIMERCTRL 0, Mmio GEM 0, Mmio SCU 0,
               Mmio I2C 0]
          \<and> subregions mmio_size (done_calls (ast2400_realize K m)) IOMEM = [])"
    (is "_ \<and> _ \<and> _ \<and> _ \<and> _ \<and> (?ok \<longrightarrow> ?full)")
proof -
  note none = no_backend_no_uart [OF assms, of K]
  have "list_all (\<lambda>x. m_target x \<noteq> Serial)
          (subregions mmio_size (done_calls (ast2400_realize K m)) container)" for container
    unfolding subregions_def by (rule no_uart_no_serial_region [OF none])
  then have regions: "list_all (\<lambda>x. m_target x \<noteq> Serial)
           (subregions mmio_size (done_calls (ast2400_realize K m)) SYSTEM_MEMORY
            @ subregions mmio_size (done_calls (ast2400_realize K m)) IOMEM)"
    by simp
  have full: "?ok \<longrightarrow> ?full"
  proof
    assume ok: ?ok
    show ?full
      by (simp add: success_calls [OF ok] assms subregions_def)
  qed
  from none regions serial_backend_only_adds_the_uart [OF assms, of K chr]
    no_failure_no_error [of K m] full
  show ?thesis
    by blast
qed

theorem C8_witness:
  "serial_hds0 headless = None
   \<and> uarts (done_calls (ast2400_realize quiet headless)) = []
   \<and> errp (ast2400_realize quiet headless) = None
   \<and> errp (ast2400_realize quiet (headless\<lparr>serial_hds0 := Some ''serial0''\<rparr>)) = None
   \<and> length (done_calls (ast2400_realize quiet headless)) = 41
   \<and> activated (done_calls (ast2400_realize quiet headless)) = [VIC, TIMERCTRL, GEM, SCU, I2C]
   \<and> map m_target (subregions page_windows (done_calls (ast2400_realize quiet headless))
        SYSTEM_MEMORY) =
        [Region SRAM, Region IOMEM, Mmio VIC 0, Mmio TIMERCTRL 0, Mmio GEM 0, Mmio SCU 0,
         Mmio I2C 0]
   \<and> subregions page_windows (done_calls (ast2400_realize quiet headless)) IOMEM = []"
proof -
  have s: "serial_hds0 headless = None"
    by (simp add: headless_def)
  have q: "\<forall>c. quiet c None = None"
    by (simp add: quiet_def)
  note w = C8_no_serial_backend_is_not_an_error [OF s, of quiet page_windows "''serial0''"]
  from w q have e: "errp (ast2400_realize quiet headless) = None"
    by blast
  from w have "errp (ast2400_realize quiet headless) =
      errp (ast2400_realize quiet (headless\<lparr>serial_hds0 := Some ''serial0''\<rparr>))"
    by blast
  with e have e': "errp (ast2400_realize quiet (headless\<lparr>serial_hds0 := Some ''serial0''\<rparr>)) = None"
    by simp
  from w have u: "uarts (done_calls (ast2400_realize quiet headless)) = []"
    by blast
  from w e have d: "done_calls (ast2400_realize quiet headless) =
              [memory_region_allocate_system_memory SRAM ''ast2400.sram'' (AST2400_SRAM_SIZE headless),
               memory_region_add_subregion SYSTEM_MEMORY (AST2400_SRAM_BASE headless) SRAM,
               memory_region_init_io IOMEM ast2400_io_ops ''ast2400.io'' 0x00200000,
               memory_region_add_subregion_overlap SYSTEM_MEMORY 0x1E600000 IOMEM (- 1),
               object_property_set_int VIC 0x00001F07FFF8FFFF ''sense'',
               object_property_set_int VIC 0x000000F800070000 ''dual_edge'',
               object_property_set_int VIC 0x00005F07FFF8FFFF ''event'',
               object_property_set_bool VIC True ''realized'',
               sysbus_mmio_map VIC 0 0x1E6C0000,
               sysbus_connect_irq VIC 0 (qdev_get_gpio_in CPU ARM_CPU_IRQ),
               sysbus_connect_irq VIC 1 (qdev_get_gpio_in CPU ARM_CPU_FIQ),
               object_property_set_bool TIMERCTRL True ''realized'',
               sysbus_mmio_map TIMERCTRL 0 0x1E782000,
               sysbus_connect_irq TIMERCTRL 0 (qdev_get_gpio_in VIC (Line 16)),
               sysbus_connect_irq TIMERCTRL 1 (qdev_get_gpio_in VIC (Line 17)),
               sysbus_connect_irq TIMERCTRL 2 (qdev_get_gpio_in VIC (Line 18)),
               sysbus_connect_irq TIMERCTRL 3 (qdev_get_gpio_in VIC (Line 35)),
               sysbus_connect_irq TIMERCTRL 4 (qdev_get_gpio_in VIC (Line 36)),
               sysbus_connect_irq TIMERCTRL 5 (qdev_get_gpio_in VIC (Line 37)),
               sysbus_connect_irq TIMERCTRL 6 (qdev_get_gpio_in VIC (Line 38)),
               sysbus_connect_irq TIMERCTRL 7 (qdev_get_gpio_in VIC (Line 39)),
               qemu_check_nic_model (nd_table0 headless) TYPE_CADENCE_GEM,
               qdev_set_nic_properties GEM (nd_table0 headless),
               object_property_set_bool GEM True ''realized'',
               sysbus_mmio_map GEM 0 0x1E680000,
               sysbus_connect_irq GEM 0 (qdev_get_gpio_in VIC (Line 3)),
               object_property_set_int SCU 0x19FC3E8B ''scu0c'',
               object_property_set_int SCU 0x01000000 ''scu88'',
               object_property_set_int SCU 0x000000FF ''scu8c'',
               object_property_set_int SCU 0x003FFFF3 ''scu9c'',
               object_property_set_bool SCU True ''realized'',
               sysbus_mmio_map SCU 0 0x1E6E2000,
               object_property_set_bool I2C True ''realized'',
               sysbus_mmio_map I2C 0 0x1E78A000,
               sysbus_connect_irq I2C 0 (qdev_get_gpio_in VIC (Line 12)),
               i2c_create_slave 2 ''tmp423'' 0x4c,
               object_property_set_int (I2C_SLAVE 2 ''tmp423'' 0x4c) 31000 ''temperature0'',
               object_property_set_int (I2C_SLAVE 2 ''tmp423'' 0x4c) 28000 ''temperature1'',
               object_property_set_int (I2C_SLAVE 2 ''tmp423'' 0x4c) 20000 ''temperature2'',
               object_property_set_int (I2C_SLAVE 2 ''tmp423'' 0x4c) 110000 ''temperature3'',
               i2c_create_slave 0 ''ds1338'' 0x68]"
    and a: "activated (done_calls (ast2400_realize quiet headless)) = [VIC, TIMERCTRL, GEM, SCU, I2C]"
    and t: "map m_target (subregions page_windows (done_calls (ast2400_realize quiet headless))
        SYSTEM_MEMORY) =
        [Region SRAM, Region IOMEM, Mmio VIC 0, Mmio TIMERCTRL 0, Mmio GEM 0, Mmio SCU 0,
         Mmio I2C 0]"
    and r: "subregions page_windows (done_calls (ast2400_realize quiet headless)) IOMEM = []"
    by blast+
  from d have l: "length (done_calls (ast2400_realize quiet headless)) = 41"
    by simp
  from s u e e' l a t r show ?thesis
    by blast
qed

subsection \<open>C9: the interrupt controller\<close>

text \<open>
  Claim C9. In a successful composition the calls on the interrupt controller are, in
  this order: the three masks sense = 0x00001F07FFF8FFFF, dual_edge = 0x000000F800070000
  and event = 0x00005F07FFF8FFFF, the activation, the mapping of its region 0 at
  0x1E6C0000, and the connection of output 0 to the CPU's IRQ input and of output 1 to the
  CPU's FIQ input.
\<close>

theorem C9_vic_configured_then_activated_then_wired:
  assumes "errp (ast2400_realize K m) = None"
  shows "calls_on VIC (done_calls (ast2400_realize K m)) =
           [object_property_set_int VIC 0x00001F07FFF8FFFF ''sense'',
            object_property_set_int VIC 0x000000F800070000 ''dual_edge'',
            object_property_set_int VIC 0x00005F07FFF8FFFF ''event'',
            object_property_set_bool VIC True ''realized'',
            sysbus_mmio_map VIC 0 0x1E6C0000,
            sysbus_connect_irq VIC 0 (qdev_get_gpio_in CPU ARM_CPU_IRQ),
            sysbus_connect_irq VIC 1 (qdev_get_gpio_in CPU ARM_CPU_FIQ)]
       \<and> AST2400_VIC_BASE = 0x1E6C0000"
  by (cases "serial_hds0 m")
     (simp_all add: success_calls [OF assms] calls_on_def AST2400_VIC_BASE_def)

theorem C9_witness:
  "errp (ast2400_realize quiet board) = None
   \<and> calls_on VIC (done_calls (ast2400_realize quiet board)) =
           [object_property_set_int VIC 0x00001F07FFF8FFFF ''sense'',
            object_property_set_int VIC 0x000000F800070000 ''dual_edge'',
            object_property_set_int VIC 0x00005F07FFF8FFFF ''event'',
            object_property_set_bool VIC True ''realized'',
            sysbus_mmio_map VIC 0 0x1E6C0000,
            sysbus_connect_irq VIC 0 (qdev_get_gpio_in CPU ARM_CPU_IRQ),
            sysbus_connect_irq VIC 1 (qdev_get_gpio_in CPU ARM_CPU_FIQ)]"
  using C9_vic_configured_then_activated_then_wired [OF quiet_board_ok] quiet_board_ok
  by simp

subsection \<open>C10: the fixed interrupt inputs\<close>

text \<open>
  Claim C10. In every successful composition the network MAC has its one output 0
  connected to interrupt-controller input 3, the I2C controller its output 0 to input 12,
  and, when a serial backend is present, the UART is handed input 10 (none is created
  otherwise). The numbers do not depend on the machine or on the setters.
\<close>

theorem C10_fixed_interrupt_inputs:
  assumes "errp (ast2400_realize K m) = None"
  shows "irq_wiring GEM (done_calls (ast2400_realize K m)) = [(0, qdev_get_gpio_in VIC (Line 3))]
       \<and> irq_wiring I2C (done_calls (ast2400_realize K m)) = [(0, qdev_get_gpio_in VIC (Line 12))]
       \<and> map serial_irq (uarts (done_calls (ast2400_realize K m))) =
           (case serial_hds0 m of
              None \<Rightarrow> []
            | Some chr \<Rightarrow> [Some (qdev_get_gpio_in VIC (Line 10))])"
  by (cases "serial_hds0 m") (simp_all add: success_calls [OF assms] uarts_def)

theorem C10_witness:
  "errp (ast2400_realize quiet board) = None
   \<and> irq_wiring GEM (done_calls (ast2400_realize quiet board)) = [(0, qdev_get_gpio_in VIC (Line 3))]
   \<and> irq_wiring I2C (done_calls (ast2400_realize quiet board)) = [(0, qdev_get_gpio_in VIC (Line 12))]
   \<and> map serial_irq (uarts (done_calls (ast2400_realize quiet board))) =
        [Some (qdev_get_gpio_in VIC (Line 10))]"
  using C10_fixed_interrupt_inputs [OF quiet_board_ok] quiet_board_ok
  by (simp add: board_def)

end
